theory Spec2Isabelle
  imports Complex_Main
begin

section \<open>Python values used by the documentation app\<close>

text \<open>
  The app is a Streamlit program over a static catalog of endpoint dictionaries. A
  Python string is modelled as a \<^typ>\<open>string\<close>, the list of the bytes of its UTF-8
  encoding. The built-in methods \<open>str.lower\<close> and \<open>str.strip\<close> follow the Unicode
  tables of the interpreter, which are not part of the repository: every function that
  calls them takes them as the parameters \<open>lower\<close> and \<open>strip\<close>, and what is proved holds
  for every such pair of functions. An optional dictionary key is an
  \<^typ>\<open>'a option\<close> field, \<open>None\<close> meaning that the key is absent.
\<close>

datatype py_error = IndexError

text \<open>Entries of a request-body tuple: strings, and a boolean for the required flag.\<close>

datatype pyval = PStr string | PBool bool

fun truthy :: "pyval \<Rightarrow> bool" where
  "truthy (PStr s) = (s \<noteq> [])"
| "truthy (PBool b) = b"

fun py_str :: "pyval \<Rightarrow> string" where
  "py_str (PStr s) = s"
| "py_str (PBool b) = (if b then ''True'' else ''False'')"

definition dict_get :: "'a option \<Rightarrow> 'a \<Rightarrow> 'a" where
  "dict_get v d = (case v of None \<Rightarrow> d | Some x \<Rightarrow> x)"

text \<open>Decimal rendering of integers, as \<open>str(int)\<close> and f-string interpolation do.\<close>

function str_nat :: "nat \<Rightarrow> string" where
  "str_nat n =
     (if n < 10 then [''0123456789'' ! n]
      else str_nat (n div 10) @ [''0123456789'' ! (n mod 10)])"
  by pat_completeness auto
termination
  by (relation "measure id") auto

declare str_nat.simps [simp del]

definition str_int :: "int \<Rightarrow> string" where
  "str_int i = (if i < 0 then ''-'' @ str_nat (nat (- i)) else str_nat (nat i))"



section \<open>The endpoint catalog\<close>

text \<open>
  One entry of \<open>ENDPOINTS\<close>. The keys read with \<open>ep["..."]\<close> are fields that are always
  present (\<open>ep["id"]\<close> and \<open>ep["method"]\<close> are the fields \<open>ep_id\<close> and \<open>ep_method\<close>); the keys read
  with \<open>ep.get("...")\<close> are optional. The catalog itself
  (\<open>data/endpoints.py\<close>) is a parameter \<open>ENDPOINTS\<close> of every function that reads it.
\<close>

record endpoint =
  ep_id :: string
  ep_method :: string
  path :: string
  title :: string
  tag :: string
  subcategory :: string
  summary :: "string option"
  description_long :: "string option"
  auth :: "string option"
  source_file :: "string option"
  source_line :: "int option"
  complexity :: "string option"
  path_params :: "(string \<times> string \<times> string) list option"
  query_params :: "(string \<times> string \<times> string) list option"
  request_body :: "pyval list list option"
  response_fields :: "(string \<times> string \<times> string) list option"
  response_status :: "int option"
  status_codes :: "(int \<times> string) list option"

text \<open>
  Modelled from the spec: \<open>get_endpoint_by_id\<close> lives in \<open>data/endpoints.py\<close>, which is not
  part of the sources. The spec says that a page handle "must resolve its EndpointRecord
  by id" and that the id may be "absent from the catalog"; the model returns the first
  record of the catalog with the given id, and \<open>None\<close> when there is none.
\<close>

definition get_endpoint_by_id :: "endpoint list \<Rightarrow> string \<Rightarrow> endpoint option" where
  "get_endpoint_by_id ENDPOINTS endpoint_id = find (\<lambda>e. ep_id e = endpoint_id) ENDPOINTS"

section \<open>Badges (\<open>components/styles.py\<close>)\<close>

definition method_badge_html :: "(string \<Rightarrow> string) \<Rightarrow> string \<Rightarrow> string" where
  \<open>method_badge_html lower m =
     ''<span class="method-badge method-'' @ lower m @ ''">'' @ m @ ''</span>''\<close>

definition status_code_html :: "int \<Rightarrow> string" where
  \<open>status_code_html code =
     (let css_class = (if code < 300 then ''status-2xx''
                       else if code < 500 then ''status-4xx''
                       else ''status-5xx'')
      in ''<span class="status-code '' @ css_class @ ''">'' @ str_int code @ ''</span>'')\<close>

section \<open>The endpoint detail renderer (\<open>components/endpoint_detail_renderer.py\<close>)\<close>

text \<open>
  Every Streamlit call of the renderer appends one element to the page:
  \<open>inject_global_css()\<close>, \<open>st.button\<close>, \<open>st.markdown(text)\<close>,
  \<open>st.markdown(html, unsafe_allow_html=True)\<close> and \<open>st.error\<close>. A page run ends by
  running to its end, by \<open>st.stop()\<close>, by \<open>st.switch_page\<close>, or by an uncaught exception.
\<close>

datatype element =
    GlobalCss
  | Button string
  | Markdown string
  | Html string
  | ErrorBox string

datatype ending = Completed | Stopped | Switched string | Raised py_error

type_synonym outcome = "element list \<times> ending"

definition header_elements :: "(string \<Rightarrow> string) \<Rightarrow> endpoint \<Rightarrow> element list" where
  \<open>header_elements lower ep =
     [Html (''<div style="margin-top:8px;">'' @ method_badge_html lower (ep_method ep)
            @ '' <span class="endpoint-path" style="font-size:1.15rem;">'' @ path ep
            @ ''</span></div>''),
      Markdown (''## '' @ title ep)]\<close>

text \<open>\<open>" ".join(meta_parts)\<close>\<close>

fun join_space :: "string list \<Rightarrow> string" where
  "join_space [] = []"
| "join_space [s] = s"
| "join_space (s # t # ss) = s @ '' '' @ join_space (t # ss)"

definition meta_parts :: "endpoint \<Rightarrow> string list" where
  \<open>meta_parts ep =
     (if dict_get (auth ep) [] \<noteq> []
      then [''<span class="auth-badge">'' @ dict_get (auth ep) [] @ ''</span>'']
      else [])
     @ [''<span style="font-size:0.78rem;color:#64748B;">''
        @ dict_get (source_file ep) [] @ '':''
        @ (case source_line ep of None \<Rightarrow> [] | Some n \<Rightarrow> str_int n) @ ''</span>'']\<close>

definition meta_row :: "endpoint \<Rightarrow> element list" where
  \<open>meta_row ep =
     [Html (''<div style="display:flex;gap:12px;align-items:center;flex-wrap:wrap;margin-bottom:8px;">''
            @ join_space (meta_parts ep) @ ''</div>'')]\<close>

definition description_text :: "endpoint \<Rightarrow> string" where
  "description_text ep = dict_get (description_long ep) (dict_get (summary ep) [])"

definition description_section :: "endpoint \<Rightarrow> element list" where
  "description_section ep =
     (let desc = description_text ep in
      if desc \<noteq> [] then [Markdown ''### Description'', Markdown desc] else [])"

text \<open>The three-column rows shared by path parameters, query parameters and response fields.\<close>

definition field_row :: "string \<times> string \<times> string \<Rightarrow> string" where
  \<open>field_row r =
     (case r of (name, ftype, fdesc) \<Rightarrow>
        ''<tr><td class="field-name">'' @ name @ ''</td>''
        @ ''<td class="field-type">'' @ ftype @ ''</td>''
        @ ''<td>'' @ fdesc @ ''</td></tr>'')\<close>

definition field_table :: "string \<Rightarrow> (string \<times> string \<times> string) list \<Rightarrow> element" where
  \<open>field_table first_column rows_src =
     Html (''<table class="schema-table"><thead><tr>''
           @ ''<th>'' @ first_column @ ''</th><th>Type</th><th>Description</th>''
           @ ''</tr></thead><tbody>'' @ concat (map field_row rows_src) @ ''</tbody></table>'')\<close>

definition path_parameters_section :: "endpoint \<Rightarrow> element list" where
  "path_parameters_section ep =
     (let path_params = dict_get (path_params ep) [] in
      if path_params \<noteq> []
      then [Markdown ''### Path Parameters'', field_table ''Name'' path_params]
      else [])"

definition query_parameters_section :: "endpoint \<Rightarrow> element list" where
  "query_parameters_section ep =
     (let query_params = dict_get (query_params ep) [] in
      if query_params \<noteq> []
      then [Markdown ''### Query Parameters'', field_table ''Name'' query_params]
      else [])"

text \<open>
  A request-body row. A tuple of four entries is unpacked as name, type, required flag and
  description; any other tuple is read as \<open>item[0]\<close>, \<open>item[1]\<close>, \<open>item[-1]\<close>, which raises
  \<open>IndexError\<close> on tuples with fewer than two entries.
\<close>

definition body_row_html :: "string \<Rightarrow> string \<Rightarrow> string \<Rightarrow> string \<Rightarrow> string" where
  \<open>body_row_html name ftype req_text fdesc =
     ''<tr><td class="field-name">'' @ name @ ''</td>''
     @ ''<td class="field-type">'' @ ftype @ ''</td>''
     @ ''<td>'' @ req_text @ ''</td>''
     @ ''<td>'' @ fdesc @ ''</td></tr>''\<close>

definition request_body_row :: "pyval list \<Rightarrow> py_error + string" where
  "request_body_row item =
     (if length item = 4
      then Inr (body_row_html (py_str (item ! 0)) (py_str (item ! 1))
                  (if truthy (item ! 2) then ''Yes'' else ''No'') (py_str (item ! 3)))
      else if length item < 2 then Inl IndexError
      else Inr (body_row_html (py_str (item ! 0)) (py_str (item ! 1)) ''-'' (py_str (last item))))"

text \<open>The loop \<open>for item in request_body: rows += ...\<close>, stopping at the first exception.\<close>

fun request_body_rows :: "string \<Rightarrow> pyval list list \<Rightarrow> py_error + string" where
  "request_body_rows rows [] = Inr rows"
| "request_body_rows rows (item # items) =
     (case request_body_row item of
        Inl e \<Rightarrow> Inl e
      | Inr r \<Rightarrow> request_body_rows (rows @ r) items)"

definition request_body_table :: "string \<Rightarrow> element" where
  \<open>request_body_table rows =
     Html (''<table class="schema-table"><thead><tr>''
           @ ''<th>Field</th><th>Type</th><th>Required</th><th>Description</th>''
           @ ''</tr></thead><tbody>'' @ rows @ ''</tbody></table>'')\<close>

text \<open>
  The request-body block: the elements it emits, and the exception that cut it short, if
  any (the heading is already on the page when a row raises).
\<close>

definition request_body_section :: "endpoint \<Rightarrow> element list \<times> py_error option" where
  "request_body_section ep =
     (let request_body = dict_get (request_body ep) [] in
      if request_body \<noteq> []
      then (case request_body_rows [] request_body of
              Inl e \<Rightarrow> ([Markdown ''### Request Body''], Some e)
            | Inr rows \<Rightarrow> ([Markdown ''### Request Body'', request_body_table rows], None))
      else ([], None))"

definition response_section :: "endpoint \<Rightarrow> element list" where
  "response_section ep =
     (let response_fields = dict_get (response_fields ep) [] in
      if response_fields \<noteq> []
      then [Markdown (''### Response ('' @ str_int (dict_get (response_status ep) 200) @ '')''),
            field_table ''Field'' response_fields]
      else [])"

definition status_row :: "int \<times> string \<Rightarrow> string" where
  \<open>status_row r =
     (case r of (code, fdesc) \<Rightarrow>
        ''<tr><td>'' @ status_code_html code @ ''</td><td>'' @ fdesc @ ''</td></tr>'')\<close>

text \<open>
  \<open>status_codes\<close> is a dictionary from code to description, kept here as the list of its
  items (one per key); \<open>sorted(status_codes.items())\<close> orders them by code.
\<close>

definition status_codes_section :: "endpoint \<Rightarrow> element list" where
  \<open>status_codes_section ep =
     (let status_codes = dict_get (status_codes ep) [] in
      if status_codes \<noteq> []
      then [Markdown ''### Status Codes'',
            Html (''<table class="schema-table"><thead><tr>''
                  @ ''<th>Code</th><th>Description</th>''
                  @ ''</tr></thead><tbody>''
                  @ concat (map status_row (sort_key fst status_codes))
                  @ ''</tbody></table>'')]
      else [])\<close>

text \<open>The list comprehension over \<open>ENDPOINTS\<close> that collects the related endpoints.\<close>

definition related_endpoints :: "endpoint list \<Rightarrow> endpoint \<Rightarrow> endpoint list" where
  "related_endpoints ENDPOINTS ep =
     [e \<leftarrow> ENDPOINTS. tag e = tag ep \<and> subcategory e = subcategory ep \<and> ep_id e \<noteq> ep_id ep]"

text \<open>One line per related endpoint; the separator is an em dash (three bytes in UTF-8).\<close>

definition related_line :: "(string \<Rightarrow> string) \<Rightarrow> endpoint \<Rightarrow> element" where
  \<open>related_line lower rel =
     Html (method_badge_html lower (ep_method rel) @ '' `'' @ path rel @ ''` ''
           @ [CHR 0xE2, CHR 0x80, CHR 0x94] @ '' '' @ title rel)\<close>

definition related_section :: "(string \<Rightarrow> string) \<Rightarrow> endpoint list \<Rightarrow> endpoint \<Rightarrow> element list" where
  "related_section lower ENDPOINTS ep =
     (let complexity = dict_get (complexity ep) ''simple'' in
      if complexity = ''complex''
      then (let related = related_endpoints ENDPOINTS ep in
            if related \<noteq> []
            then Markdown ''### Related Endpoints'' # map (related_line lower) related
            else [])
      else [])"

text \<open>
  \<open>render_endpoint_detail(ep)\<close>. The argument \<open>pressed\<close> is the value returned by the
  "Back to All Endpoints" button in this run: when it is pressed the page switches away
  before anything else is drawn.
\<close>

definition render_endpoint_detail ::
  "(string \<Rightarrow> string) \<Rightarrow> endpoint list \<Rightarrow> bool \<Rightarrow> endpoint \<Rightarrow> outcome" where
  "render_endpoint_detail lower ENDPOINTS pressed ep =
     (let top = [GlobalCss, Button ''Back to All Endpoints''] in
      if pressed then (top, Switched ''pages/all_endpoints.py'')
      else
        (let upper = top @ header_elements lower ep @ meta_row ep @ [Markdown ''---'']
                     @ description_section ep
                     @ path_parameters_section ep
                     @ query_parameters_section ep
         in case request_body_section ep of
              (body, Some e) \<Rightarrow> (upper @ body, Raised e)
            | (body, None) \<Rightarrow>
                (upper @ body
                 @ response_section ep
                 @ status_codes_section ep
                 @ related_section lower ENDPOINTS ep, Completed)))"

section \<open>The route generator (\<open>pages/endpoint_pages.py\<close>)\<close>

text \<open>
  \<open>_make_page_fn(endpoint_id)\<close> returns a closure whose only captured variable is the id;
  the closure is the value \<open>PageFn endpoint_id\<close>. Calling it reads the catalog as it is at
  the time of the call.
\<close>

datatype page_fn = PageFn string

definition make_page_fn :: "string \<Rightarrow> page_fn" where
  "make_page_fn endpoint_id = PageFn endpoint_id"

fun call_page_fn :: "(string \<Rightarrow> string) \<Rightarrow> endpoint list \<Rightarrow> bool \<Rightarrow> page_fn \<Rightarrow> outcome" where
  "call_page_fn lower ENDPOINTS pressed (PageFn endpoint_id) =
     (case get_endpoint_by_id ENDPOINTS endpoint_id of
        None \<Rightarrow> ([ErrorBox ''Endpoint not found.''], Stopped)
      | Some ep \<Rightarrow> render_endpoint_detail lower ENDPOINTS pressed ep)"

text \<open>An \<open>st.Page\<close> object: the callable, the title and the URL path it is registered under.\<close>

record page =
  page_callable :: page_fn
  page_title :: string
  url_path :: string

definition st_Page :: "endpoint \<Rightarrow> page" where
  "st_Page ep =
     \<lparr>page_callable = make_page_fn (ep_id ep), page_title = title ep,
      url_path = ''ep-'' @ ep_id ep\<rparr>"

text \<open>The loop of \<open>build_endpoint_pages\<close>, over the list \<open>pages\<close> and the dictionary \<open>by_id\<close>.\<close>

fun build_loop ::
  "endpoint list \<Rightarrow> page list \<times> (string \<rightharpoonup> page) \<Rightarrow> page list \<times> (string \<rightharpoonup> page)" where
  "build_loop [] acc = acc"
| "build_loop (ep # eps) (pages, by_id) =
     build_loop eps (pages @ [st_Page ep], by_id(ep_id ep \<mapsto> st_Page ep))"

definition build_endpoint_pages :: "endpoint list \<Rightarrow> page list \<times> (string \<rightharpoonup> page)" where
  "build_endpoint_pages ENDPOINTS = build_loop ENDPOINTS ([], Map.empty)"

definition invoke :: "(string \<Rightarrow> string) \<Rightarrow> endpoint list \<Rightarrow> bool \<Rightarrow> page \<Rightarrow> outcome" where
  "invoke lower ENDPOINTS pressed p = call_page_fn lower ENDPOINTS pressed (page_callable p)"

section \<open>The listing filter (\<open>pages/all_endpoints.py\<close>)\<close>

text \<open>
  \<open>_matches(ep)\<close> reads the two widgets of the page: the selected \<open>method_filter\<close> and the
  text typed into the search box, from which \<open>search_lower = search.strip().lower()\<close>.
\<close>

definition haystack :: "(string \<Rightarrow> string) \<Rightarrow> endpoint \<Rightarrow> string" where
  "haystack lower ep =
     lower (path ep @ '' '' @ title ep @ '' '' @ dict_get (summary ep) []
            @ '' '' @ dict_get (description_long ep) [])"





section \<open>The diagram runtime (\<open>components/architecture_diagram.py\<close>, the embedded script)\<close>

text \<open>
  Coordinates are JavaScript numbers. They are modelled as exact rationals: rounding is
  not represented. A division by zero does not raise in JavaScript but yields \<open>NaN\<close> or an
  infinity; such a non-finite result is the value \<open>None\<close>, and it stays non-finite when a
  finite number is added to it.
\<close>

definition js_div :: "rat \<Rightarrow> rat \<Rightarrow> rat option" where
  "js_div a b = (if b = 0 then None else Some (a / b))"

definition js_add :: "rat \<Rightarrow> rat option \<Rightarrow> rat option" where
  "js_add a q = map_option (\<lambda>v. a + v) q"

definition edgePoint ::
  "rat \<Rightarrow> rat \<Rightarrow> rat \<Rightarrow> rat \<Rightarrow> rat \<Rightarrow> rat \<Rightarrow> rat option \<times> rat option" where
  "edgePoint cx cy w h tx ty =
     (let dx = tx - cx; dy = ty - cy;
          absDx = \<bar>dx\<bar>; absDy = \<bar>dy\<bar>;
          hw = w / 2; hh = h / 2
      in if absDx * hh > absDy * hw
         then (let sign = (if dx > 0 then 1 else - 1)
               in (Some (cx + sign * hw), js_add cy (js_div (dy * hw) absDx)))
         else (let sign = (if dy > 0 then 1 else - 1)
               in (js_add cx (js_div (dx * hh) absDy), Some (cy + sign * hh))))"

text \<open>A \<open>DOMRect\<close> as returned by \<open>getBoundingClientRect()\<close>.\<close>

record rect =
  r_left :: rat
  r_top :: rat
  r_width :: rat
  r_height :: rat

text \<open>
  The geometry of the rendered page: the rectangle of the diagram container (the parent
  of every node) and the rectangle of each element.
\<close>

record layout =
  container :: rect
  element_rect :: "string \<Rightarrow> rect"

text \<open>The elements of the document that carry an id: the eight nodes and their popups.\<close>

definition node_ids :: "string list" where
  "node_ids =
     [''n-ipm'', ''n-client'', ''n-ca'', ''n-access'', ''n-team'', ''n-employee'',
      ''n-meeting'', ''n-fac'']"

definition popup_ids :: "string list" where
  "popup_ids =
     [''p-ipm'', ''p-client'', ''p-ca'', ''p-access'', ''p-team'', ''p-employee'',
      ''p-meeting'', ''p-fac'']"

definition getElementById :: "string \<Rightarrow> bool" where
  "getElementById i = (i \<in> set (node_ids @ popup_ids))"

text \<open>\<open>getCenter(el)\<close>: centre and size of an element relative to its parent.\<close>

definition getCenter :: "rect \<Rightarrow> rect \<Rightarrow> rat \<times> rat \<times> rat \<times> rat" where
  "getCenter r p =
     (r_left r - r_left p + r_width r / 2, r_top r - r_top p + r_height r / 2,
      r_width r, r_height r)"

definition arrows :: "(string \<times> string \<times> string) list" where
  "arrows =
     [(''n-ipm'', ''n-client'', ''creates''),
      (''n-ipm'', ''n-access'', ''requests access''),
      (''n-client'', ''n-ca'', ''has''),
      (''n-client'', ''n-team'', ''contains''),
      (''n-ca'', ''n-employee'', ''manages''),
      (''n-ca'', ''n-team'', ''manages''),
      (''n-team'', ''n-meeting'', ''has''),
      (''n-employee'', ''n-fac'', ''can be''),
      (''n-fac'', ''n-meeting'', ''creates'')]"

text \<open>
  One drawn arrow: the two ends of its line and, when the label is not empty, the label
  with the position of its text (the midpoint of the line, raised by 6). \<open>drawArrows\<close>
  clears the old arrows and draws one per declared arrow whose two nodes exist.
\<close>

definition js_plus :: "rat option \<Rightarrow> rat option \<Rightarrow> rat option" where
  "js_plus a b = (case (a, b) of (Some x, Some y) \<Rightarrow> Some (x + y) | _ \<Rightarrow> None)"

definition label_position ::
  "rat option \<times> rat option \<Rightarrow> rat option \<times> rat option \<Rightarrow> rat option \<times> rat option" where
  "label_position start_point end_point =
     (map_option (\<lambda>v. v / 2) (js_plus (fst start_point) (fst end_point)),
      map_option (\<lambda>v. v / 2 - 6) (js_plus (snd start_point) (snd end_point)))"

record arrow_g =
  line_start :: "rat option \<times> rat option"
  line_end :: "rat option \<times> rat option"
  arrow_text :: "(string \<times> (rat option \<times> rat option)) option"

definition draw_arrow :: "layout \<Rightarrow> string \<times> string \<times> string \<Rightarrow> arrow_g option" where
  "draw_arrow L a =
     (case a of (fromId, toId, label) \<Rightarrow>
        if \<not> getElementById fromId \<or> \<not> getElementById toId then None
        else
          (case (getCenter (element_rect L fromId) (container L),
                 getCenter (element_rect L toId) (container L)) of
             ((fx, fy, fw, fh), (tx, ty, tw, th)) \<Rightarrow>
               (let start_point = edgePoint fx fy fw fh tx ty;
                    end_point = edgePoint tx ty tw th fx fy
                in Some \<lparr>line_start = start_point,
                         line_end = end_point,
                         arrow_text = (if label \<noteq> []
                                       then Some (label, label_position start_point end_point)
                                       else None)\<rparr>)))"

definition drawArrows :: "layout \<Rightarrow> arrow_g list" where
  "drawArrows L = List.map_filter (draw_arrow L) arrows"

subsection \<open>Popup placement\<close>

text \<open>
  The position that \<open>showPopup\<close> writes into \<open>popup.style.left\<close> and \<open>popup.style.top\<close>,
  from the rectangle \<open>nr\<close> of the node and the rectangle \<open>dr\<close> of the diagram.
\<close>

definition popup_position :: "rect \<Rightarrow> rect \<Rightarrow> rat \<times> rat" where
  "popup_position nr dr =
     (let left0 = r_left nr - r_left dr + r_width nr + 12;
          top0 = r_top nr - r_top dr;
          left1 = (if left0 + 480 > r_width dr then r_left nr - r_left dr - 490 else left0);
          left2 = (if left1 < 0 then r_left nr - r_left dr else left1);
          top1 = (if top0 + 400 > r_height dr then r_height dr - 410 else top0);
          top2 = (if top1 < 0 then 0 else top1)
      in (left2, top2))"

subsection \<open>Popup state and hover handlers\<close>

text \<open>
  The variables of the script (\<open>activePopup\<close>, \<open>hoverNode\<close>, \<open>hoverPopup\<close>), the part of the
  document it writes (which popups carry the class \<open>visible\<close>, and their position), and
  the timers started by \<open>setTimeout\<close> that have not fired yet, each with the time in
  milliseconds at which it is due, in the order in which they were started.
\<close>

record state =
  activePopup :: "string option"
  hoverNode :: "string option"
  hoverPopup :: bool
  visible :: "string set"
  position :: "string \<rightharpoonup> rat \<times> rat"
  timers :: "nat list"


text \<open>The attribute \<open>data-popup\<close> of the eight nodes of the diagram.\<close>

definition data_popup :: "string \<rightharpoonup> string" where
  "data_popup =
     map_of
       [(''n-ipm'', ''p-ipm''), (''n-client'', ''p-client''), (''n-ca'', ''p-ca''),
        (''n-access'', ''p-access''), (''n-team'', ''p-team''),
        (''n-employee'', ''p-employee''), (''n-meeting'', ''p-meeting''),
        (''n-fac'', ''p-fac'')]"

definition showPopup :: "layout \<Rightarrow> string \<Rightarrow> state \<Rightarrow> state" where
  "showPopup L nodeEl s =
     (case data_popup nodeEl of
        None \<Rightarrow> s
      | Some popup \<Rightarrow>
          if \<not> getElementById popup then s
          else
            (let vis = (case activePopup s of
                          None \<Rightarrow> visible s
                        | Some a \<Rightarrow> if a \<noteq> popup then visible s - {a} else visible s)
             in s\<lparr>visible := insert popup vis,
                  position := (position s)
                    (popup \<mapsto> popup_position (element_rect L nodeEl) (container L)),
                  activePopup := Some popup\<rparr>))"

text \<open>\<open>hidePopup()\<close> only starts a timer of 150 ms; \<open>hide_callback\<close> is what the timer runs.\<close>

definition hidePopup :: "nat \<Rightarrow> state \<Rightarrow> state" where
  "hidePopup now s = s\<lparr>timers := timers s @ [now + 150]\<rparr>"

definition hide_callback :: "state \<Rightarrow> state" where
  "hide_callback s =
     (case activePopup s of
        Some a \<Rightarrow>
          if hoverNode s = None \<and> \<not> hoverPopup s
          then s\<lparr>visible := visible s - {a}, activePopup := None\<rparr>
          else s
      | None \<Rightarrow> s)"

datatype event = NodeEnter string | NodeLeave string | PopupEnter string | PopupLeave string

fun handle :: "layout \<Rightarrow> nat \<Rightarrow> event \<Rightarrow> state \<Rightarrow> state" where
  "handle L now (NodeEnter node) s = showPopup L node (s\<lparr>hoverNode := Some node\<rparr>)"
| "handle L now (NodeLeave node) s = hidePopup now (s\<lparr>hoverNode := None\<rparr>)"
| "handle L now (PopupEnter popup) s = s\<lparr>hoverPopup := True\<rparr>"
| "handle L now (PopupLeave popup) s = hidePopup now (s\<lparr>hoverPopup := False\<rparr>)"

text \<open>
  The event loop. Pointer events arrive with their time stamps, in order; a timer that is
  due runs before any later pointer event, and after the last pointer event the loop
  keeps running timers up to the time \<open>horizon\<close>. The result lists the state after every
  callback that ran.
\<close>

function run :: "layout \<Rightarrow> (nat \<times> event) list \<Rightarrow> nat \<Rightarrow> state \<Rightarrow> state list" where
  "run L evs horizon s =
     (let bound = (case evs of [] \<Rightarrow> horizon | (t, e) # rest \<Rightarrow> t) in
      case timers s of
        d # ds \<Rightarrow>
          if d \<le> bound
          then (let s' = hide_callback (s\<lparr>timers := ds\<rparr>) in s' # run L evs horizon s')
          else (case evs of
                  [] \<Rightarrow> []
                | (t, e) # rest \<Rightarrow> (let s' = handle L t e s in s' # run L rest horizon s'))
      | [] \<Rightarrow>
          (case evs of
             [] \<Rightarrow> []
           | (t, e) # rest \<Rightarrow> (let s' = handle L t e s in s' # run L rest horizon s')))"
  by pat_completeness auto
termination
  apply (relation "measure (\<lambda>(L, evs, horizon, s). 2 * length evs + length (timers s))")
     apply (auto simp: hide_callback_def split: option.splits)
  subgoal for L s t e
    by (cases e) (auto simp: hidePopup_def showPopup_def split: option.splits)
  subgoal for L s d ds t e
    by (cases e) (auto simp: hidePopup_def showPopup_def split: option.splits)
  done

declare run.simps [simp del]


section \<open>Example records\<close>

text \<open>
  What \<open>str.lower()\<close> and \<open>str.strip()\<close> do to a string of ASCII characters: the letters
  \<open>A\<close> to \<open>Z\<close> become \<open>a\<close> to \<open>z\<close>, and leading and trailing tabs, line feeds, vertical
  tabs, form feeds, carriage returns, separators 28 to 31 and spaces are dropped. They
  stand for the two built-ins where the examples below, which are ASCII throughout, are
  evaluated.
\<close>

definition ascii_lower_char :: "char \<Rightarrow> char" where
  "ascii_lower_char c =
     (case map_of (zip ''ABCDEFGHIJKLMNOPQRSTUVWXYZ'' ''abcdefghijklmnopqrstuvwxyz'') c of
        None \<Rightarrow> c
      | Some d \<Rightarrow> d)"

definition ascii_lower :: "string \<Rightarrow> string" where
  "ascii_lower s = map ascii_lower_char s"



text \<open>
  A small catalog used to evaluate the functions above: four records with the tag
  \<open>Meetings\<close>; \<open>A\<close>, \<open>B\<close> and \<open>C\<close> share the subcategory \<open>Analysis\<close>, \<open>D\<close> has another one;
  \<open>B\<close> is the only one that is not complex. No optional key but \<open>complexity\<close> is set.
\<close>

definition example_endpoint :: "string \<Rightarrow> string \<Rightarrow> string \<Rightarrow> string \<Rightarrow> endpoint" where
  "example_endpoint i m sub cx =
     \<lparr>ep_id = i, ep_method = m, path = ''/meetings/'' @ i, title = ''Meeting '' @ i,
      tag = ''Meetings'', subcategory = sub, summary = None, description_long = None,
      auth = None, source_file = None, source_line = None, complexity = Some cx,
      path_params = None, query_params = None, request_body = None,
      response_fields = None, response_status = None, status_codes = None\<rparr>"

definition example_A :: endpoint where
  "example_A = example_endpoint ''A'' ''POST'' ''Analysis'' ''complex''"
definition example_B :: endpoint where
  "example_B = example_endpoint ''B'' ''GET'' ''Analysis'' ''simple''"
definition example_C :: endpoint where
  "example_C = example_endpoint ''C'' ''POST'' ''Analysis'' ''complex''"
definition example_D :: endpoint where
  "example_D = example_endpoint ''D'' ''GET'' ''Recording'' ''complex''"
definition example_catalog :: "endpoint list" where
  "example_catalog = [example_A, example_B, example_C, example_D]"

definition example_body :: "pyval list list" where
  "example_body =
     [[PStr ''name'', PStr ''string'', PBool True, PStr ''Display name''],
      [PStr ''draft'', PStr ''bool'', PBool False, PStr ''Keep as draft''],
      [PStr ''note'', PStr ''string'', PStr ''Free text'']]"







section \<open>Facts about the example records\<close>

lemmas example_defs = example_catalog_def example_A_def example_B_def example_C_def
  example_D_def example_endpoint_def

lemma render_unpressed:
  "snd (request_body_section ep) = None \<Longrightarrow>
   render_endpoint_detail lower ENDPOINTS False ep =
     ([GlobalCss, Button ''Back to All Endpoints''] @ header_elements lower ep @ meta_row ep
      @ [Markdown ''---''] @ description_section ep @ path_parameters_section ep
      @ query_parameters_section ep @ fst (request_body_section ep) @ response_section ep
      @ status_codes_section ep @ related_section lower ENDPOINTS ep, Completed)"
  by (cases "request_body_section ep") (simp add: render_endpoint_detail_def)

lemma request_body_section_absent:
  "dict_get (request_body ep) [] = [] \<Longrightarrow> request_body_section ep = ([], None)"
  by (simp add: request_body_section_def)

lemma example_no_body: "request_body_section (example_endpoint i m sub cx) = ([], None)"
  by (simp add: request_body_section_absent example_endpoint_def dict_get_def)

lemma render_prefix:
  \<open>take 4 (fst (render_endpoint_detail lower ENDPOINTS False ep)) =
     [GlobalCss, Button ''Back to All Endpoints'',
      Html (''<div style="margin-top:8px;"><span class="method-badge method-''
            @ lower (ep_method ep) @ ''">'' @ ep_method ep
            @ ''</span> <span class="endpoint-path" style="font-size:1.15rem;">'' @ path ep
            @ ''</span></div>''),
      Markdown (''## '' @ title ep)]\<close>
  by (cases "request_body_section ep"; cases "snd (request_body_section ep)")
     (simp_all add: render_endpoint_detail_def header_elements_def method_badge_html_def)

section \<open>Route generator: one page per record\<close>

lemma build_loop_fst: "fst (build_loop eps acc) = fst acc @ map st_Page eps"
  by (induction eps acc rule: build_loop.induct) simp_all

lemma build_loop_dom: "dom (snd (build_loop eps acc)) = dom (snd acc) \<union> ep_id ` set eps"
  by (induction eps acc rule: build_loop.induct) auto

lemma build_loop_value:
  "snd (build_loop eps acc) i = Some h \<Longrightarrow>
     snd acc i = Some h \<or> (\<exists>e \<in> set eps. ep_id e = i \<and> h = st_Page e)"
  by (induction eps acc rule: build_loop.induct) (auto split: if_splits)

lemma find_by_id_distinct:
  "distinct (map ep_id xs) \<Longrightarrow> e \<in> set xs \<Longrightarrow> find (\<lambda>x. ep_id x = ep_id e) xs = Some e"
  by (induction xs) (auto simp: rev_image_eqI)

lemma find_by_id_absent:
  "i \<notin> ep_id ` set xs \<Longrightarrow> find (\<lambda>x. ep_id x = i) xs = None"
  by (induction xs) auto

text \<open>
  Claim C1. \<open>build_endpoint_pages\<close> returns one page per catalog record, in catalog
  order; the keys of the dictionary are exactly the ids of the catalog; every page stored
  under an id is one of the listed pages, is registered under the URL path \<open>ep-{id}\<close> and
  captures that id. When the ids of the catalog are distinct, the page stored under the id
  of a record is the page built for that record, the lookup by id returns that record,
  and invoking the page renders the detail view of that record: behind the style sheet
  and the Back button the page shows the method badge and the path of the record and
  then its title, and no record of the catalog with another title is shown there.
\<close>

theorem build_endpoint_pages_handles:
  \<open>fst (build_endpoint_pages ENDPOINTS) = map st_Page ENDPOINTS
   \<and> length (fst (build_endpoint_pages ENDPOINTS)) = length ENDPOINTS
   \<and> dom (snd (build_endpoint_pages ENDPOINTS)) = ep_id ` set ENDPOINTS
   \<and> (\<forall>i h. snd (build_endpoint_pages ENDPOINTS) i = Some h \<longrightarrow>
          h \<in> set (fst (build_endpoint_pages ENDPOINTS))
          \<and> url_path h = ''ep-'' @ i \<and> page_callable h = make_page_fn i)
   \<and> (distinct (map ep_id ENDPOINTS) \<longrightarrow>
        (\<forall>ep \<in> set ENDPOINTS.
           snd (build_endpoint_pages ENDPOINTS) (ep_id ep) = Some (st_Page ep)
           \<and> get_endpoint_by_id ENDPOINTS (ep_id ep) = Some ep
           \<and> invoke lower ENDPOINTS pressed (st_Page ep)
               = render_endpoint_detail lower ENDPOINTS pressed ep
           \<and> take 4 (fst (invoke lower ENDPOINTS False (st_Page ep))) =
               [GlobalCss, Button ''Back to All Endpoints'',
                Html (''<div style="margin-top:8px;"><span class="method-badge method-''
                      @ lower (ep_method ep) @ ''">'' @ ep_method ep
                      @ ''</span> <span class="endpoint-path" style="font-size:1.15rem;">''
                      @ path ep @ ''</span></div>''),
                Markdown (''## '' @ title ep)]
           \<and> (\<forall>other \<in> set ENDPOINTS. title other \<noteq> title ep \<longrightarrow>
                 fst (invoke lower ENDPOINTS False (st_Page ep)) ! 3
                   \<noteq> Markdown (''## '' @ title other))))\<close>
proof -
  let ?r = "build_endpoint_pages ENDPOINTS"
  have pages: "fst ?r = map st_Page ENDPOINTS"
    by (simp add: build_endpoint_pages_def build_loop_fst)
  have keys: "dom (snd ?r) = ep_id ` set ENDPOINTS"
    by (simp add: build_endpoint_pages_def build_loop_dom)
  have vals: "h \<in> set (fst ?r) \<and> url_path h = ''ep-'' @ i \<and> page_callable h = make_page_fn i"
    if "snd ?r i = Some h" for i h
  proof -
    from that obtain e where e: "e \<in> set ENDPOINTS" "ep_id e = i" "h = st_Page e"
      using build_loop_value [of ENDPOINTS "([], Map.empty)" i h]
      by (auto simp: build_endpoint_pages_def)
    then show ?thesis
      by (auto simp: pages st_Page_def)
  qed
  have inv: \<open>snd ?r (ep_id ep) = Some (st_Page ep)
      \<and> get_endpoint_by_id ENDPOINTS (ep_id ep) = Some ep
      \<and> invoke lower ENDPOINTS pressed (st_Page ep)
          = render_endpoint_detail lower ENDPOINTS pressed ep
      \<and> take 4 (fst (invoke lower ENDPOINTS False (st_Page ep))) =
               [GlobalCss, Button ''Back to All Endpoints'',
                Html (''<div style="margin-top:8px;"><span class="method-badge method-''
                      @ lower (ep_method ep) @ ''">'' @ ep_method ep
                      @ ''</span> <span class="endpoint-path" style="font-size:1.15rem;">''
                      @ path ep @ ''</span></div>''),
                Markdown (''## '' @ title ep)]
      \<and> (\<forall>other \<in> set ENDPOINTS. title other \<noteq> title ep \<longrightarrow>
            fst (invoke lower ENDPOINTS False (st_Page ep)) ! 3
              \<noteq> Markdown (''## '' @ title other))\<close>
    if d: "distinct (map ep_id ENDPOINTS)" and m: "ep \<in> set ENDPOINTS" for ep :: endpoint
  proof -
    have look: "get_endpoint_by_id ENDPOINTS (ep_id ep) = Some ep"
      using d m by (simp add: get_endpoint_by_id_def find_by_id_distinct)
    have "ep_id ep \<in> dom (snd ?r)"
      using m keys by auto
    then obtain h where h: "snd ?r (ep_id ep) = Some h"
      by auto
    then obtain e where e: "e \<in> set ENDPOINTS" "ep_id e = ep_id ep" "h = st_Page e"
      using build_loop_value [of ENDPOINTS "([], Map.empty)" "ep_id ep" h]
      by (auto simp: build_endpoint_pages_def)
    have "e = ep"
      using d m e(1,2) by (metis distinct_map inj_onD)
    with h e have stored: "snd ?r (ep_id ep) = Some (st_Page ep)"
      by simp
    have run: "invoke lower ENDPOINTS b (st_Page ep) = render_endpoint_detail lower ENDPOINTS b ep"
      for b
      by (simp add: invoke_def st_Page_def make_page_fn_def look)
    note pre = render_prefix [of lower ENDPOINTS ep]
    have third: "fst (render_endpoint_detail lower ENDPOINTS False ep) ! 3
        = Markdown (''## '' @ title ep)"
    proof -
      have "take 4 (fst (render_endpoint_detail lower ENDPOINTS False ep)) ! 3
          = Markdown (''## '' @ title ep)"
        by (simp only: pre) simp
      then show ?thesis
        by simp
    qed
    show ?thesis
      using look stored run pre third by simp
  qed
  show ?thesis
    using pages keys vals inv by (intro conjI allI impI ballI) auto
qed

theorem build_endpoint_pages_handles_witness:
  \<open>distinct (map ep_id example_catalog)
   \<and> fst (build_endpoint_pages example_catalog) =
       [st_Page example_A, st_Page example_B, st_Page example_C, st_Page example_D]
   \<and> snd (build_endpoint_pages example_catalog) ''C'' = Some (st_Page example_C)
   \<and> url_path (st_Page example_C) = ''ep-C''
   \<and> take 4 (fst (invoke ascii_lower example_catalog False (st_Page example_C))) =
       [GlobalCss, Button ''Back to All Endpoints'',
        Html ''<div style="margin-top:8px;"><span class="method-badge method-post">POST</span> <span class="endpoint-path" style="font-size:1.15rem;">/meetings/C</span></div>'',
        Markdown ''## Meeting C'']
   \<and> fst (invoke ascii_lower example_catalog False (st_Page example_C)) ! 3
       \<noteq> Markdown ''## Meeting A''\<close>
proof -
  have d: "distinct (map ep_id example_catalog)"
    by (simp add: example_defs)
  have m: "example_C \<in> set example_catalog" "example_A \<in> set example_catalog"
    by (simp_all add: example_catalog_def)
  have i: "ep_id example_C = ''C''" "title example_A \<noteq> title example_C"
    "title example_A = ''Meeting A''"
    by (simp_all add: example_defs)
  note t = build_endpoint_pages_handles [where ENDPOINTS = example_catalog
      and lower = ascii_lower and pressed = False]
  note c = t [THEN conjunct2, THEN conjunct2, THEN conjunct2, THEN conjunct2, THEN mp, OF d,
      THEN bspec, OF m(1)]
  have pages: "fst (build_endpoint_pages example_catalog) = map st_Page example_catalog"
    by (rule t [THEN conjunct1])
  have stored: "snd (build_endpoint_pages example_catalog) ''C'' = Some (st_Page example_C)"
    using c [THEN conjunct1] i(1) by simp
  note four = c [THEN conjunct2, THEN conjunct2, THEN conjunct2, THEN conjunct1]
  note others = c [THEN conjunct2, THEN conjunct2, THEN conjunct2, THEN conjunct2,
      THEN bspec, OF m(2), THEN mp, OF i(2)]
  have \<open>take 4 (fst (invoke ascii_lower example_catalog False (st_Page example_C))) =
       [GlobalCss, Button ''Back to All Endpoints'',
        Html ''<div style="margin-top:8px;"><span class="method-badge method-post">POST</span> <span class="endpoint-path" style="font-size:1.15rem;">/meetings/C</span></div>'',
        Markdown ''## Meeting C'']\<close>
    by (simp only: four) (simp add: example_defs ascii_lower_def ascii_lower_char_def)
  moreover have "fst (invoke ascii_lower example_catalog False (st_Page example_C)) ! 3
       \<noteq> Markdown ''## Meeting A''"
    using others by (simp only: i(3)) simp
  ultimately show ?thesis
    using d pages stored by (simp add: example_catalog_def) (simp add: st_Page_def i(1))
qed

section \<open>Route generator: resolution at call time\<close>

text \<open>
  Claim C2. Every page built from a catalog calls a closure that holds only the id of
  its record. Calling the closure looks the id up in the catalog as it is at the time of
  the call: when the id is absent the outcome is the single error box "Endpoint not
  found." followed by \<open>st.stop()\<close> (no exception, no detail section); when the catalog
  at call time holds a record with that id, that record is rendered, whatever the
  record was when the page was built.
\<close>

theorem page_fn_resolves_at_call:
  "(\<forall>h \<in> set (fst (build_endpoint_pages BUILT)).
      \<exists>ep \<in> set BUILT. page_callable h = make_page_fn (ep_id ep))
   \<and> call_page_fn lower NOW pressed (make_page_fn i) =
        (case get_endpoint_by_id NOW i of
           None \<Rightarrow> ([ErrorBox ''Endpoint not found.''], Stopped)
         | Some ep \<Rightarrow> render_endpoint_detail lower NOW pressed ep)
   \<and> (i \<notin> ep_id ` set NOW \<longrightarrow>
        call_page_fn lower NOW pressed (make_page_fn i) = ([ErrorBox ''Endpoint not found.''], Stopped))
   \<and> (\<forall>ep \<in> set BUILT. ep_id ep \<notin> ep_id ` set NOW \<longrightarrow>
        invoke lower NOW pressed (st_Page ep) = ([ErrorBox ''Endpoint not found.''], Stopped))
   \<and> (\<forall>ep \<in> set BUILT. \<forall>ep' \<in> set NOW.
        distinct (map ep_id NOW) \<and> ep_id ep' = ep_id ep \<longrightarrow>
        invoke lower NOW pressed (st_Page ep) = render_endpoint_detail lower NOW pressed ep')"
proof (intro conjI ballI impI)
  fix h assume "h \<in> set (fst (build_endpoint_pages BUILT))"
  then show "\<exists>ep \<in> set BUILT. page_callable h = make_page_fn (ep_id ep)"
    by (auto simp: build_endpoint_pages_def build_loop_fst st_Page_def)
next
  show "call_page_fn lower NOW pressed (make_page_fn i) =
        (case get_endpoint_by_id NOW i of
           None \<Rightarrow> ([ErrorBox ''Endpoint not found.''], Stopped)
         | Some ep \<Rightarrow> render_endpoint_detail lower NOW pressed ep)"
    by (simp add: make_page_fn_def)
next
  assume "i \<notin> ep_id ` set NOW"
  then show "call_page_fn lower NOW pressed (make_page_fn i) = ([ErrorBox ''Endpoint not found.''], Stopped)"
    by (simp add: make_page_fn_def get_endpoint_by_id_def find_by_id_absent)
next
  fix ep :: endpoint assume "ep_id ep \<notin> ep_id ` set NOW"
  then show "invoke lower NOW pressed (st_Page ep) = ([ErrorBox ''Endpoint not found.''], Stopped)"
    by (simp add: invoke_def st_Page_def make_page_fn_def get_endpoint_by_id_def find_by_id_absent)
next
  fix ep ep' :: endpoint assume "ep' \<in> set NOW" "distinct (map ep_id NOW) \<and> ep_id ep' = ep_id ep"
  then show "invoke lower NOW pressed (st_Page ep) = render_endpoint_detail lower NOW pressed ep'"
    using find_by_id_distinct [of NOW ep']
    by (simp add: invoke_def st_Page_def make_page_fn_def get_endpoint_by_id_def)
qed

theorem page_fn_resolves_at_call_witness:
  "example_D \<in> set example_catalog
   \<and> ep_id example_D \<notin> ep_id ` set [example_A, example_B]
   \<and> invoke ascii_lower [example_A, example_B] False (st_Page example_D)
       = ([ErrorBox ''Endpoint not found.''], Stopped)
   \<and> distinct (map ep_id [example_A\<lparr>title := ''Renamed''\<rparr>])
   \<and> invoke ascii_lower [example_A\<lparr>title := ''Renamed''\<rparr>] False (st_Page example_A)
       = render_endpoint_detail ascii_lower [example_A\<lparr>title := ''Renamed''\<rparr>] False
           (example_A\<lparr>title := ''Renamed''\<rparr>)
   \<and> fst (invoke ascii_lower [example_A\<lparr>title := ''Renamed''\<rparr>] False (st_Page example_A)) ! 3
       = Markdown ''## Renamed''"
proof -
  have m: "example_D \<in> set example_catalog" "example_A \<in> set example_catalog"
    by (simp_all add: example_catalog_def)
  have a: "ep_id example_D \<notin> ep_id ` set [example_A, example_B]"
    by (simp add: example_defs)
  note t1 = page_fn_resolves_at_call [where BUILT = example_catalog
      and NOW = "[example_A, example_B]" and pressed = False and lower = ascii_lower]
  have gone: "invoke ascii_lower [example_A, example_B] False (st_Page example_D)
       = ([ErrorBox ''Endpoint not found.''], Stopped)"
    by (rule t1 [THEN conjunct2, THEN conjunct2, THEN conjunct2, THEN conjunct1,
          THEN bspec, OF m(1), THEN mp, OF a])
  let ?new = "example_A\<lparr>title := ''Renamed''\<rparr>"
  have n: "?new \<in> set [?new]" "distinct (map ep_id [?new]) \<and> ep_id ?new = ep_id example_A"
    by simp_all
  note t2 = page_fn_resolves_at_call [where BUILT = example_catalog
      and NOW = "[?new]" and pressed = False and lower = ascii_lower]
  have cur: "invoke ascii_lower [?new] False (st_Page example_A)
      = render_endpoint_detail ascii_lower [?new] False ?new"
    by (rule t2 [THEN conjunct2, THEN conjunct2, THEN conjunct2, THEN conjunct2,
          THEN bspec, OF m(2), THEN bspec, OF n(1), THEN mp, OF n(2)])
  have "take 4 (fst (render_endpoint_detail ascii_lower [?new] False ?new)) ! 3
      = Markdown ''## Renamed''"
    by (simp only: render_prefix) simp
  then have "fst (invoke ascii_lower [?new] False (st_Page example_A)) ! 3
      = Markdown ''## Renamed''"
    by (simp add: cur)
  with gone cur m a show ?thesis
    by simp
qed

section \<open>Schema renderer: request-body rows\<close>

lemma request_body_rows_shapes:
  "\<forall>item \<in> set rb. length item = 3 \<or> length item = 4 \<Longrightarrow>
   \<exists>rs. length rs = length rb
      \<and> (\<forall>k < length rb. request_body_row (rb ! k) = Inr (rs ! k))
      \<and> request_body_rows acc rb = Inr (acc @ concat rs)"
proof (induction rb arbitrary: acc)
  case Nil
  then show ?case by simp
next
  case (Cons item rb)
  have "length item = 3 \<or> length item = 4"
    using Cons.prems by simp
  then obtain r where r: "request_body_row item = Inr r"
    by (auto simp: request_body_row_def)
  have "\<forall>item \<in> set rb. length item = 3 \<or> length item = 4"
    using Cons.prems by simp
  from Cons.IH [OF this, of "acc @ r"] obtain rs where rs: "length rs = length rb"
      "\<forall>k < length rb. request_body_row (rb ! k) = Inr (rs ! k)"
      "request_body_rows (acc @ r) rb = Inr ((acc @ r) @ concat rs)"
    by blast
  have nth: "request_body_row ((item # rb) ! k) = Inr ((r # rs) ! k)"
    if "k < length (item # rb)" for k
  proof (cases k)
    case 0
    then show ?thesis by (simp add: r)
  next
    case (Suc m)
    with that have "m < length rb" by simp
    with rs(2) Suc show ?thesis by simp
  qed
  have "length (r # rs) = length (item # rb)"
    using rs(1) by simp
  moreover have "request_body_rows acc (item # rb) = Inr (acc @ concat (r # rs))"
    using r rs(3) by simp
  ultimately show ?case
    using nth by blast
qed

text \<open>
  Claim C7. A request-body row of four entries is rendered as one table row whose third
  cell is \<open>Yes\<close> or \<open>No\<close>, by the truth value of the required entry; a row of three
  entries is rendered as one table row whose third cell is \<open>-\<close>. When every row of a
  request body has three or four entries, the loop raises nothing and yields one
  rendered row per entry, in order; the page then runs to completion and carries, after
  the heading \<open>### Request Body\<close>, the table that holds all these rows.
\<close>

theorem request_body_row_shapes:
  \<open>request_body_row [n, t, r, d] =
     Inr (''<tr><td class="field-name">'' @ py_str n @ ''</td><td class="field-type">''
          @ py_str t @ ''</td><td>'' @ (if truthy r then ''Yes'' else ''No'')
          @ ''</td><td>'' @ py_str d @ ''</td></tr>'')
   \<and> request_body_row [n, t, d] =
     Inr (''<tr><td class="field-name">'' @ py_str n @ ''</td><td class="field-type">''
          @ py_str t @ ''</td><td>-</td><td>'' @ py_str d @ ''</td></tr>'')
   \<and> ((\<forall>item \<in> set rb. length item = 3 \<or> length item = 4) \<longrightarrow>
        (\<exists>rs. length rs = length rb
           \<and> (\<forall>k < length rb. request_body_row (rb ! k) = Inr (rs ! k))
           \<and> request_body_rows [] rb = Inr (concat rs)
           \<and> (request_body ep = Some rb \<and> rb \<noteq> [] \<longrightarrow>
                render_endpoint_detail lower ENDPOINTS False ep =
                  ([GlobalCss, Button ''Back to All Endpoints''] @ header_elements lower ep
                   @ meta_row ep @ [Markdown ''---''] @ description_section ep
                   @ path_parameters_section ep @ query_parameters_section ep
                   @ [Markdown ''### Request Body'',
                      Html (''<table class="schema-table"><thead><tr>''
                            @ ''<th>Field</th><th>Type</th><th>Required</th><th>Description</th>''
                            @ ''</tr></thead><tbody>'' @ concat rs @ ''</tbody></table>'')]
                   @ response_section ep @ status_codes_section ep
                   @ related_section lower ENDPOINTS ep, Completed))))\<close>
proof (intro conjI impI)
  show \<open>request_body_row [n, t, r, d] =
     Inr (''<tr><td class="field-name">'' @ py_str n @ ''</td><td class="field-type">''
          @ py_str t @ ''</td><td>'' @ (if truthy r then ''Yes'' else ''No'')
          @ ''</td><td>'' @ py_str d @ ''</td></tr>'')\<close>
    by (simp add: request_body_row_def body_row_html_def)
  show \<open>request_body_row [n, t, d] =
     Inr (''<tr><td class="field-name">'' @ py_str n @ ''</td><td class="field-type">''
          @ py_str t @ ''</td><td>-</td><td>'' @ py_str d @ ''</td></tr>'')\<close>
    by (simp add: request_body_row_def body_row_html_def)
next
  assume "\<forall>item \<in> set rb. length item = 3 \<or> length item = 4"
  then obtain rs where rs: "length rs = length rb"
      "\<forall>k < length rb. request_body_row (rb ! k) = Inr (rs ! k)"
      "request_body_rows [] rb = Inr ([] @ concat rs)"
    using request_body_rows_shapes [of rb "[]"] by blast
  have sec: "request_body_section ep =
          ([Markdown ''### Request Body'', request_body_table (concat rs)], None)"
    if "request_body ep = Some rb \<and> rb \<noteq> []"
    using that rs(3) by (simp add: request_body_section_def dict_get_def)
  have page: \<open>render_endpoint_detail lower ENDPOINTS False ep =
                  ([GlobalCss, Button ''Back to All Endpoints''] @ header_elements lower ep
                   @ meta_row ep @ [Markdown ''---''] @ description_section ep
                   @ path_parameters_section ep @ query_parameters_section ep
                   @ [Markdown ''### Request Body'',
                      Html (''<table class="schema-table"><thead><tr>''
                            @ ''<th>Field</th><th>Type</th><th>Required</th><th>Description</th>''
                            @ ''</tr></thead><tbody>'' @ concat rs @ ''</tbody></table>'')]
                   @ response_section ep @ status_codes_section ep
                   @ related_section lower ENDPOINTS ep, Completed)\<close>
    if "request_body ep = Some rb \<and> rb \<noteq> []"
    using sec [OF that] render_unpressed [of ep lower ENDPOINTS]
    by (simp add: request_body_table_def)
  show \<open>\<exists>rs. length rs = length rb
           \<and> (\<forall>k < length rb. request_body_row (rb ! k) = Inr (rs ! k))
           \<and> request_body_rows [] rb = Inr (concat rs)
           \<and> (request_body ep = Some rb \<and> rb \<noteq> [] \<longrightarrow>
                render_endpoint_detail lower ENDPOINTS False ep =
                  ([GlobalCss, Button ''Back to All Endpoints''] @ header_elements lower ep
                   @ meta_row ep @ [Markdown ''---''] @ description_section ep
                   @ path_parameters_section ep @ query_parameters_section ep
                   @ [Markdown ''### Request Body'',
                      Html (''<table class="schema-table"><thead><tr>''
                            @ ''<th>Field</th><th>Type</th><th>Required</th><th>Description</th>''
                            @ ''</tr></thead><tbody>'' @ concat rs @ ''</tbody></table>'')]
                   @ response_section ep @ status_codes_section ep
                   @ related_section lower ENDPOINTS ep, Completed))\<close>
    using rs page by (intro exI [of _ rs]) simp
qed

theorem request_body_row_shapes_witness:
  \<open>map length example_body = [4, 4, 3]
   \<and> request_body_row [PStr ''name'', PStr ''string'', PBool True, PStr ''Display name''] =
       Inr ''<tr><td class="field-name">name</td><td class="field-type">string</td><td>Yes</td><td>Display name</td></tr>''
   \<and> request_body_row [PStr ''draft'', PStr ''bool'', PBool False, PStr ''Keep as draft''] =
       Inr ''<tr><td class="field-name">draft</td><td class="field-type">bool</td><td>No</td><td>Keep as draft</td></tr>''
   \<and> request_body_row [PStr ''note'', PStr ''string'', PStr ''Free text''] =
       Inr ''<tr><td class="field-name">note</td><td class="field-type">string</td><td>-</td><td>Free text</td></tr>''
   \<and> fst (render_endpoint_detail ascii_lower [] False
             (example_B\<lparr>request_body := Some example_body\<rparr>)) ! 7 =
       Html ''<table class="schema-table"><thead><tr><th>Field</th><th>Type</th><th>Required</th><th>Description</th></tr></thead><tbody><tr><td class="field-name">name</td><td class="field-type">string</td><td>Yes</td><td>Display name</td></tr><tr><td class="field-name">draft</td><td class="field-type">bool</td><td>No</td><td>Keep as draft</td></tr><tr><td class="field-name">note</td><td class="field-type">string</td><td>-</td><td>Free text</td></tr></tbody></table>''
   \<and> snd (render_endpoint_detail ascii_lower [] False
             (example_B\<lparr>request_body := Some example_body\<rparr>)) = Completed\<close>
proof -
  let ?ep = "example_B\<lparr>request_body := Some example_body\<rparr>"
  note t = request_body_row_shapes [where rb = example_body and ep = ?ep
      and lower = ascii_lower and ENDPOINTS = "[]"]
  have r4: \<open>request_body_row [PStr ''name'', PStr ''string'', PBool True, PStr ''Display name''] =
       Inr ''<tr><td class="field-name">name</td><td class="field-type">string</td><td>Yes</td><td>Display name</td></tr>''\<close>
    using t [where n = "PStr ''name''" and t = "PStr ''string''" and r = "PBool True"
        and d = "PStr ''Display name''", THEN conjunct1]
    by simp
  have r4': \<open>request_body_row [PStr ''draft'', PStr ''bool'', PBool False, PStr ''Keep as draft''] =
       Inr ''<tr><td class="field-name">draft</td><td class="field-type">bool</td><td>No</td><td>Keep as draft</td></tr>''\<close>
    using t [where n = "PStr ''draft''" and t = "PStr ''bool''" and r = "PBool False"
        and d = "PStr ''Keep as draft''", THEN conjunct1]
    by simp
  have r3: \<open>request_body_row [PStr ''note'', PStr ''string'', PStr ''Free text''] =
       Inr ''<tr><td class="field-name">note</td><td class="field-type">string</td><td>-</td><td>Free text</td></tr>''\<close>
    using t [where n = "PStr ''note''" and t = "PStr ''string''"
        and d = "PStr ''Free text''", THEN conjunct2, THEN conjunct1]
    by simp
  have rows: \<open>request_body_rows [] example_body =
      Inr ''<tr><td class="field-name">name</td><td class="field-type">string</td><td>Yes</td><td>Display name</td></tr><tr><td class="field-name">draft</td><td class="field-type">bool</td><td>No</td><td>Keep as draft</td></tr><tr><td class="field-name">note</td><td class="field-type">string</td><td>-</td><td>Free text</td></tr>''\<close>
    by (simp add: example_body_def r4 r4' r3)
  have shapes: "\<forall>item \<in> set example_body. length item = 3 \<or> length item = 4"
    by (simp add: example_body_def)
  have present: "request_body ?ep = Some example_body \<and> example_body \<noteq> []"
    by (simp add: example_body_def)
  from t [THEN conjunct2, THEN conjunct2, THEN mp, OF shapes]
  obtain rs where rs: "request_body_rows [] example_body = Inr (concat rs)"
    and page: \<open>request_body ?ep = Some example_body \<and> example_body \<noteq> [] \<longrightarrow>
                render_endpoint_detail ascii_lower [] False ?ep =
                  ([GlobalCss, Button ''Back to All Endpoints''] @ header_elements ascii_lower ?ep
                   @ meta_row ?ep @ [Markdown ''---''] @ description_section ?ep
                   @ path_parameters_section ?ep @ query_parameters_section ?ep
                   @ [Markdown ''### Request Body'',
                      Html (''<table class="schema-table"><thead><tr>''
                            @ ''<th>Field</th><th>Type</th><th>Required</th><th>Description</th>''
                            @ ''</tr></thead><tbody>'' @ concat rs @ ''</tbody></table>'')]
                   @ response_section ?ep @ status_codes_section ?ep
                   @ related_section ascii_lower [] ?ep, Completed)\<close>
    by (elim exE conjE)
  have c: \<open>concat rs = ''<tr><td class="field-name">name</td><td class="field-type">string</td><td>Yes</td><td>Display name</td></tr><tr><td class="field-name">draft</td><td class="field-type">bool</td><td>No</td><td>Keep as draft</td></tr><tr><td class="field-name">note</td><td class="field-type">string</td><td>-</td><td>Free text</td></tr>''\<close>
    using rs rows by simp
  note full = page [THEN mp, OF present]
  have \<open>fst (render_endpoint_detail ascii_lower [] False ?ep) ! 7 =
      Html (''<table class="schema-table"><thead><tr>''
            @ ''<th>Field</th><th>Type</th><th>Required</th><th>Description</th>''
            @ ''</tr></thead><tbody>'' @ concat rs @ ''</tbody></table>'')\<close>
    unfolding full
    by (simp add: header_elements_def meta_row_def description_section_def
        description_text_def path_parameters_section_def query_parameters_section_def
        example_B_def example_endpoint_def dict_get_def)
  moreover have "snd (render_endpoint_detail ascii_lower [] False ?ep) = Completed"
    by (simp only: full snd_conv)
  moreover have "map length example_body = [4, 4, 3]"
    by (simp add: example_body_def)
  ultimately show ?thesis
    using r4 r4' r3 by (simp add: c)
qed

section \<open>Schema renderer: related endpoints\<close>






section \<open>Schema renderer: which sections are emitted\<close>

text \<open>
  Every titled section is emitted exactly when its source, read with an empty default, is
  not empty.
\<close>

lemma section_emitted_iff:
  "description_section ep \<noteq> [] \<longleftrightarrow> description_text ep \<noteq> []"
  "path_parameters_section ep \<noteq> [] \<longleftrightarrow> dict_get (path_params ep) [] \<noteq> []"
  "query_parameters_section ep \<noteq> [] \<longleftrightarrow> dict_get (query_params ep) [] \<noteq> []"
  "fst (request_body_section ep) \<noteq> [] \<longleftrightarrow> dict_get (request_body ep) [] \<noteq> []"
  "response_section ep \<noteq> [] \<longleftrightarrow> dict_get (response_fields ep) [] \<noteq> []"
  "status_codes_section ep \<noteq> [] \<longleftrightarrow> dict_get (status_codes ep) [] \<noteq> []"
  "related_section lower ENDPOINTS ep \<noteq> [] \<longleftrightarrow>
     dict_get (complexity ep) ''simple'' = ''complex'' \<and> related_endpoints ENDPOINTS ep \<noteq> []"
  by (auto simp: description_section_def path_parameters_section_def
      query_parameters_section_def request_body_section_def response_section_def
      status_codes_section_def related_section_def Let_def split: sum.splits)

text \<open>
  Claim C6, on the record \<open>B\<close> of the example catalog, which has no \<open>auth\<close>, no
  \<open>source_file\<close> and no \<open>source_line\<close>: the auth badge is left out, as the claim says,
  but the row of the auth and provenance section is still on the page, holding the bare
  separator \<open>:\<close> of the missing file and line. The span of file and line is the one
  part of the renderer that is appended without a test of its source.
\<close>

theorem meta_row_always_emitted_counterexample:
  \<open>auth example_B = None \<and> source_file example_B = None \<and> source_line example_B = None
   \<and> meta_row example_B =
       [Html ''<div style="display:flex;gap:12px;align-items:center;flex-wrap:wrap;margin-bottom:8px;"><span style="font-size:0.78rem;color:#64748B;">:</span></div>'']
   \<and> fst (render_endpoint_detail ascii_lower example_catalog False example_B) ! 4 =
       Html ''<div style="display:flex;gap:12px;align-items:center;flex-wrap:wrap;margin-bottom:8px;"><span style="font-size:0.78rem;color:#64748B;">:</span></div>''
   \<and> query_parameters_section example_B = []
   \<and> description_section example_B = []\<close>
proof -
  have m: \<open>meta_row example_B =
       [Html ''<div style="display:flex;gap:12px;align-items:center;flex-wrap:wrap;margin-bottom:8px;"><span style="font-size:0.78rem;color:#64748B;">:</span></div>'']\<close>
    by (simp add: meta_row_def meta_parts_def example_B_def example_endpoint_def dict_get_def)
  have "snd (request_body_section example_B) = None"
    by (simp add: example_B_def example_no_body)
  note page = render_unpressed [OF this, of ascii_lower example_catalog]
  have \<open>fst (render_endpoint_detail ascii_lower example_catalog False example_B) ! 4 =
       Html ''<div style="display:flex;gap:12px;align-items:center;flex-wrap:wrap;margin-bottom:8px;"><span style="font-size:0.78rem;color:#64748B;">:</span></div>''\<close>
    unfolding page by (simp add: m header_elements_def)
  moreover have "query_parameters_section example_B = []" "description_section example_B = []"
    by (simp_all add: query_parameters_section_def description_section_def
        description_text_def example_B_def example_endpoint_def dict_get_def)
  ultimately show ?thesis
    using m by (simp add: example_B_def example_endpoint_def)
qed

section \<open>Listing: search and method filter\<close>




lemma value_A:
  "haystack ascii_lower example_A = ''/meetings/a meeting a  ''"
  by code_simp




section \<open>Diagram: popup placement\<close>


section \<open>Diagram: the hover-intent timers\<close>






lemma hide_callback_timers [simp]: "timers (hide_callback s) = timers s"
  by (simp add: hide_callback_def split: option.splits)

















end
